theory Spec2Isabelle
  imports Main
begin

section \<open>The event relay of server.js\<close>

text \<open>
  server.js bridges one upstream socket.io connection per demozone to the Live Experience
  (LX) websocket clients that asked for that demozone. This theory embeds its handlers as
  functions on an explicit state: the module-level variables \<open>demozones\<close>,
  \<open>demozonesId\<close>, \<open>cnxId\<close>, \<open>ankiClients\<close> and \<open>lxClients\<close>, and the objects
  \<open>d\<close> that the upstream handlers close over.

  Conventions of the embedding:
  \<^item> a JavaScript value that may be \<open>undefined\<close> is an \<open>option\<close>; a thrown exception is
    a value of \<open>js_error\<close>;
  \<^item> a JavaScript string is the list of its characters in one fixed encoding, the empty
    string being the empty list; \<open>String.prototype.toUpperCase\<close> is a built-in that
    follows the Unicode case mappings, so the functions that call it take it as the
    parameter \<open>toUpperCase\<close>, and what is proved of them holds for every such function;
  \<^item> the \<open>demozone\<close> query parameter of a handshake is undefined, a string, or the array
    of strings that a repeated query key gives (\<open>?demozone=a&demozone=b\<close>);
  \<^item> integer-valued JavaScript numbers (\<open>cnxId\<close>, \<open>events\<close>, \<open>proxyport\<close>) are
    \<open>nat\<close> or \<open>int\<close>; counters that are incremented one at a time stay far below
    \<open>2 ^ 53\<close>, where the arithmetic of numbers is exact;
  \<^item> \<open>Date.now()\<close> and \<open>moment().format(...)\<close> are read from the environment, so the
    handlers take them as arguments;
  \<^item> a socket is a handle (a natural number); what a handler does to a socket is an
    effect in the list it returns.
\<close>

subsection \<open>JavaScript primitives\<close>

datatype js_error = TypeError | SyntaxError

text \<open>A value of the \<open>demozone\<close> query parameter.\<close>

datatype param = Undefined | Str string | Arr "string list"

text \<open>
  What \<open>toUpperCase\<close> does on a string of ASCII characters: the letters a to z go to
  A to Z. It stands for the built-in in the examples below, whose strings are ASCII.
\<close>

definition ascii_upper_char :: "char \<Rightarrow> char" where
  "ascii_upper_char c =
     (let n = (of_char c :: nat) in if 97 \<le> n \<and> n \<le> 122 then char_of (n - 32) else c)"

definition ascii_toUpperCase :: "string \<Rightarrow> string" where
  "ascii_toUpperCase s = map ascii_upper_char s"

text \<open>\<open>Array.prototype.indexOf\<close>: the first index holding the element, or \<open>-1\<close>.\<close>

fun indexOf_from :: "'a list \<Rightarrow> 'a \<Rightarrow> int \<Rightarrow> int" where
  "indexOf_from [] x i = - 1"
| "indexOf_from (y # ys) x i = (if y = x then i else indexOf_from ys x (i + 1))"

definition indexOf :: "'a list \<Rightarrow> 'a \<Rightarrow> int" where
  "indexOf xs x = indexOf_from xs x 0"

text \<open>
  Member accesses on a value that may be \<open>undefined\<close> throw a TypeError there, and so
  does \<open>v.toUpperCase()\<close> on an array, which has no such method.
\<close>

definition param_toUpperCase :: "(string \<Rightarrow> string) \<Rightarrow> param \<Rightarrow> js_error + string" where
  "param_toUpperCase toUpperCase v =
     (case v of
        Undefined \<Rightarrow> Inl TypeError
      | Str s \<Rightarrow> Inr (toUpperCase s)
      | Arr xs \<Rightarrow> Inl TypeError)"

definition arr_length :: "'a list option \<Rightarrow> js_error + nat" where
  "arr_length v = (case v of None \<Rightarrow> Inl TypeError | Some xs \<Rightarrow> Inr (length xs))"

definition arr_indexOf :: "'a list option \<Rightarrow> 'a \<Rightarrow> js_error + int" where
  "arr_indexOf v x = (case v of None \<Rightarrow> Inl TypeError | Some xs \<Rightarrow> Inr (indexOf xs x))"

text \<open>
  \<open>!v\<close> for a query parameter: undefined and the empty string are falsy, every array is
  truthy.
\<close>

definition falsy_param :: "param \<Rightarrow> bool" where
  "falsy_param v = (case v of Undefined \<Rightarrow> True | Str s \<Rightarrow> s = [] | Arr xs \<Rightarrow> False)"

text \<open>\<open>!v\<close> for an array that may be undefined: every array is truthy.\<close>

definition falsy_array :: "'a list option \<Rightarrow> bool" where
  "falsy_array v = (case v of None \<Rightarrow> True | Some xs \<Rightarrow> False)"

text \<open>
  The JavaScript remainder \<open>a % b\<close> on integers takes the sign of the dividend
  (truncated division), unlike \<open>mod\<close>.
\<close>

definition js_rem :: "int \<Rightarrow> int \<Rightarrow> int" where
  "js_rem a b = sgn a * (\<bar>a\<bar> mod \<bar>b\<bar>)"

text \<open>lodash \<open>_.filter\<close> and \<open>_.remove\<close> with a predicate.\<close>

definition lodash_filter :: "'a list \<Rightarrow> ('a \<Rightarrow> bool) \<Rightarrow> 'a list" where
  "lodash_filter xs p = filter p xs"

definition lodash_remove :: "'a list \<Rightarrow> ('a \<Rightarrow> bool) \<Rightarrow> 'a list" where
  "lodash_remove xs p = filter (\<lambda>x. \<not> p x) xs"

subsection \<open>Data\<close>

text \<open>An item of the catalog returned by the database: \<open>id\<close>, \<open>name\<close>, \<open>proxyport\<close>.\<close>

record zone =
  zone_id :: string
  zone_name :: string
  proxyport :: int

text \<open>The object \<open>d\<close> built for every catalog item (lines 217 to 223).\<close>

record upstream =
  d_demozone :: string
  d_name :: string
  port :: int
  events :: nat
  lastEvent :: "string option"

text \<open>The object \<open>cnx\<close> built for every accepted LX client (lines 190 to 196).\<close>

record cnx =
  cnx_id :: nat
  cnx_demozone :: string
  timestampmilis :: nat
  timestamp :: string
  socket :: nat

text \<open>
  The state. \<open>pool\<close> holds the objects \<open>d\<close>, one per catalog item, in catalog order;
  the handlers of the \<open>i\<close>-th upstream socket close over \<open>pool ! i\<close>. \<open>ankiClients\<close>
  holds references to these objects, modelled as indices into \<open>pool\<close>, so that an update
  of \<open>d.events\<close> is seen through \<open>ankiClients\<close> as it is in the source.
\<close>

record relay =
  demozones :: "zone list option"
  demozonesId :: "string list option"
  cnxId :: nat
  ankiClients :: "nat list"
  lxClients :: "cnx list"
  pool :: "upstream list"

text \<open>
  Effects: \<open>socket.emit(namespace, msg)\<close>, \<open>socket.disconnect(true)\<close>, and the log line
  of a registration (line 198), which names the demozone and the id given out.
\<close>

datatype 'm effect =
  Emit nat string 'm
| Disconnect nat
| Registered string nat

definition namespace :: string where
  "namespace = ''offtrack''"

subsection \<open>Zone validation (lines 275 to 280)\<close>

definition isValid ::
  "(string \<Rightarrow> string) \<Rightarrow> string list option \<Rightarrow> param \<Rightarrow> js_error + bool"
where
  "isValid toUpperCase ids demozone =
     (if falsy_param demozone then Inr False
      else if falsy_array ids then Inr False
      else (case arr_length ids of
              Inl e \<Rightarrow> Inl e
            | Inr n \<Rightarrow>
                if n = 0 then Inr False
                else (case param_toUpperCase toUpperCase demozone of
                        Inl e \<Rightarrow> Inl e
                      | Inr u \<Rightarrow>
                          (case arr_indexOf ids u of
                             Inl e \<Rightarrow> Inl e
                           | Inr k \<Rightarrow> Inr (k \<noteq> - 1)))))"

subsection \<open>LX client connections (lines 182 to 209)\<close>

text \<open>
  The connection handler. An exception leaves the handler with the state as it is at
  the throw (\<open>Inl\<close>) and with nothing done to the socket: an exception of \<open>isValid\<close>
  comes before \<open>socket.disconnect(true)\<close>. \<open>++cnxId\<close> is evaluated before
  \<open>demozone.toUpperCase()\<close>.
\<close>

definition on_connection ::
  "(string \<Rightarrow> string) \<Rightarrow> param \<Rightarrow> nat \<Rightarrow> nat \<Rightarrow> string \<Rightarrow> relay
     \<Rightarrow> (js_error \<times> relay) + (relay \<times> 'm effect list)"
where
  "on_connection toUpperCase demozone sock now ts st =
     (case isValid toUpperCase (demozonesId st) demozone of
        Inl e \<Rightarrow> Inl (e, st)
      | Inr ok \<Rightarrow>
          if \<not> ok then Inr (st, [Disconnect sock])
          else
            (let st1 = st\<lparr>cnxId := cnxId st + 1\<rparr> in
             case param_toUpperCase toUpperCase demozone of
               Inl e \<Rightarrow> Inl (e, st1)
             | Inr z \<Rightarrow>
                 (let c = \<lparr>cnx_id = cnxId st1, cnx_demozone = z, timestampmilis = now,
                           timestamp = ts, socket = sock\<rparr>
                  in Inr (st1\<lparr>lxClients := lxClients st1 @ [c]\<rparr>,
                          [Registered (cnx_demozone c) (cnx_id c)]))))"

text \<open>The \<open>disconnect\<close> handler of the client with id \<open>i\<close>: \<open>_.remove(lxClients, {id})\<close>.\<close>

definition on_socket_disconnect :: "nat \<Rightarrow> relay \<Rightarrow> relay" where
  "on_socket_disconnect i st =
     st\<lparr>lxClients := lodash_remove (lxClients st) (\<lambda>c. cnx_id c = i)\<rparr>"

text \<open>The \<open>error\<close> handler of a client only logs.\<close>

definition on_socket_error :: "nat \<Rightarrow> relay \<Rightarrow> relay" where
  "on_socket_error i st = st"

subsection \<open>Upstream connections (lines 216 to 253)\<close>

definition new_upstream :: "zone \<Rightarrow> upstream" where
  "new_upstream demozone =
     \<lparr>d_demozone = zone_id demozone, d_name = zone_name demozone,
      port = js_rem (proxyport demozone) 100 + 10000, events = 0, lastEvent = None\<rparr>"

definition on_up_connect :: "nat \<Rightarrow> relay \<Rightarrow> relay" where
  "on_up_connect i st = st\<lparr>ankiClients := ankiClients st @ [i]\<rparr>"

definition on_up_disconnect :: "nat \<Rightarrow> relay \<Rightarrow> relay" where
  "on_up_disconnect i st =
     st\<lparr>ankiClients :=
          lodash_remove (ankiClients st)
            (\<lambda>j. d_demozone (pool st ! j) = d_demozone (pool st ! i))\<rparr>"

text \<open>The handler of an \<open>offtrack\<close> message on the \<open>i\<close>-th upstream socket.\<close>

definition on_offtrack :: "nat \<Rightarrow> 'm \<Rightarrow> string \<Rightarrow> relay \<Rightarrow> relay \<times> 'm effect list" where
  "on_offtrack i msg ts st =
     (let d = pool st ! i;
          matches = lodash_filter (lxClients st) (\<lambda>c. cnx_demozone c = d_demozone d)
      in if length matches > 0
         then (st\<lparr>pool := (pool st)[i := d\<lparr>events := events d + 1, lastEvent := Some ts\<rparr>]\<rparr>,
               map (\<lambda>client. Emit (socket client) namespace msg) matches)
         else (st, []))"

text \<open>
  The \<open>/info\<close> endpoint (line 260): for every entry of \<open>ankiClients\<close>, the object
  without \<open>demozone\<close>, \<open>port\<close> and \<open>socket\<close>.
\<close>

definition info :: "relay \<Rightarrow> (string \<times> nat \<times> string option) list" where
  "info st = map (\<lambda>j. (d_name (pool st ! j), events (pool st ! j), lastEvent (pool st ! j)))
               (ankiClients st)"

subsection \<open>Startup (lines 145 to 170, 215 to 223, 268 to 273)\<close>

text \<open>
  The arguments of the callback of \<open>client.get\<close>: \<open>err\<close> (its message, when there is an
  error) and \<open>res\<close>. \<open>res\<close> is undefined (\<open>No_response\<close>), or has a body that
  \<open>JSON.parse\<close> rejects (\<open>Bad_body\<close>), or a body that parses to \<open>null\<close> or to an
  object, whose \<open>items\<close> is undefined or an array of catalog items.
\<close>

datatype jbody = JNull | JObject "zone list option"

datatype response = No_response | Bad_body | Body jbody

text \<open>What the callback does: it throws, or calls \<open>next\<close> with an error or with null.\<close>

datatype fetch_result = Throws js_error | Next_error string | Next_ok "zone list"

definition catalog_fetched :: "string option \<Rightarrow> response \<Rightarrow> fetch_result" where
  "catalog_fetched err res =
     (case res of
        No_response \<Rightarrow> Throws TypeError
      | Bad_body \<Rightarrow> Throws SyntaxError
      | Body jBody \<Rightarrow>
          (case err of
             Some message \<Rightarrow> Next_error message
           | None \<Rightarrow>
               (case jBody of
                  JNull \<Rightarrow> Throws TypeError
                | JObject items \<Rightarrow>
                    (case items of
                       None \<Rightarrow> Next_error ''No demozones found. Aborting.''
                     | Some zs \<Rightarrow>
                         if length zs = 0 then Next_error ''No demozones found. Aborting.''
                         else Next_ok zs))))"

text \<open>The module-level variables as declared (lines 145 to 149).\<close>

definition initial :: relay where
  "initial = \<lparr>demozones = None, demozonesId = None, cnxId = 0, ankiClients = [],
              lxClients = [], pool = []\<rparr>"

text \<open>The third step of the series: one object \<open>d\<close> per catalog item.\<close>

definition open_upstreams :: "relay \<Rightarrow> relay" where
  "open_upstreams st =
     st\<lparr>pool := map new_upstream (case demozones st of None \<Rightarrow> [] | Some zs \<Rightarrow> zs)\<rparr>"

text \<open>
  The outcome of startup.
  \<^item> \<open>Exited c\<close>: \<open>async.series\<close> stops at a truthy error and hands it to the final
    callback, which logs and calls \<open>process.exit(c)\<close>; no later step has run.
  \<^item> \<open>Ended_after e\<close>: the exception \<open>e\<close> thrown in the callback reaches the
    \<open>uncaughtException\<close> handler (lines 36 to 39), which logs it and returns. \<open>next\<close>
    is never called, so no later step of the series runs and \<open>process.exit\<close> is not
    called; with nothing left to run the process ends by itself, with exit status 0. No
    relay was created.
  \<^item> \<open>Running st\<close>: the series went on (\<open>next\<close> was called with a falsy value: null,
    or an empty error message), the websocket server listens and the upstream
    connections are open; \<open>st\<close> is the state of the relay.
\<close>

datatype startup_outcome = Exited int | Ended_after js_error | Running relay

definition startup :: "string option \<Rightarrow> response \<Rightarrow> startup_outcome" where
  "startup err res =
     (case catalog_fetched err res of
        Throws e \<Rightarrow> Ended_after e
      | Next_error m \<Rightarrow> if m \<noteq> [] then Exited 2 else Running (open_upstreams initial)
      | Next_ok zs \<Rightarrow>
          Running (open_upstreams
                     (initial\<lparr>demozones := Some zs, demozonesId := Some (map zone_id zs)\<rparr>)))"

subsection \<open>Runs of the relay\<close>

text \<open>
  The callbacks the event loop delivers once the relay runs: a client connection (query
  parameter, socket, \<open>Date.now()\<close>, formatted time), the disconnect or error of the client
  with a given id, and the connect, disconnect or \<open>offtrack\<close> message of the \<open>i\<close>-th
  upstream socket.
\<close>

datatype 'm event =
  Connection param nat nat string
| Socket_disconnect nat
| Socket_error nat
| Up_connect nat
| Up_disconnect nat
| Offtrack nat 'm string

text \<open>An exception in a handler is logged by the \<open>uncaughtException\<close> handler.\<close>

definition step ::
  "(string \<Rightarrow> string) \<Rightarrow> 'm event \<Rightarrow> relay \<Rightarrow> relay \<times> 'm effect list"
where
  "step toUpperCase ev st =
     (case ev of
        Connection demozone sock now ts \<Rightarrow>
          (case on_connection toUpperCase demozone sock now ts st of
             Inl (e, st1) \<Rightarrow> (st1, [])
           | Inr r \<Rightarrow> r)
      | Socket_disconnect i \<Rightarrow> (on_socket_disconnect i st, [])
      | Socket_error i \<Rightarrow> (on_socket_error i st, [])
      | Up_connect i \<Rightarrow> (on_up_connect i st, [])
      | Up_disconnect i \<Rightarrow> (on_up_disconnect i st, [])
      | Offtrack i msg ts \<Rightarrow> on_offtrack i msg ts st)"

fun run ::
  "(string \<Rightarrow> string) \<Rightarrow> 'm event list \<Rightarrow> relay \<Rightarrow> relay \<times> 'm effect list"
where
  "run toUpperCase [] st = (st, [])"
| "run toUpperCase (ev # evs) st =
     (case step toUpperCase ev st of
        (st1, out1) \<Rightarrow>
          (case run toUpperCase evs st1 of (st2, out2) \<Rightarrow> (st2, out1 @ out2)))"

text \<open>The ids given out, in order, as the registration log lines show them.\<close>

fun registered_ids :: "'m effect list \<Rightarrow> nat list" where
  "registered_ids [] = []"
| "registered_ids (Registered z i # es) = i # registered_ids es"
| "registered_ids (Emit s n m # es) = registered_ids es"
| "registered_ids (Disconnect s # es) = registered_ids es"

subsection \<open>Example states\<close>

definition example_catalog :: "zone list" where
  "example_catalog =
     [\<lparr>zone_id = ''BARCELONA'', zone_name = ''Barcelona'', proxyport = 7001\<rparr>,
      \<lparr>zone_id = ''LONDON'', zone_name = ''London'', proxyport = 7002\<rparr>]"

text \<open>The relay started on the example catalog, with no client yet.\<close>

definition example_relay :: relay where
  "example_relay =
     \<lparr>demozones = Some example_catalog, demozonesId = Some [''BARCELONA'', ''LONDON''],
      cnxId = 0, ankiClients = [], lxClients = [],
      pool = [\<lparr>d_demozone = ''BARCELONA'', d_name = ''Barcelona'', port = 10001,
               events = 0, lastEvent = None\<rparr>,
              \<lparr>d_demozone = ''LONDON'', d_name = ''London'', port = 10002,
               events = 0, lastEvent = None\<rparr>]\<rparr>"

text \<open>The same relay with two clients, one per demozone.\<close>

definition example_clients :: "cnx list" where
  "example_clients =
     [\<lparr>cnx_id = 1, cnx_demozone = ''BARCELONA'', timestampmilis = 1000,
       timestamp = ''01/02/2017 16:45:17:421'', socket = 11\<rparr>,
      \<lparr>cnx_id = 2, cnx_demozone = ''LONDON'', timestampmilis = 2000,
       timestamp = ''01/02/2017 16:45:18:421'', socket = 12\<rparr>]"

definition example_busy :: relay where
  "example_busy = example_relay\<lparr>cnxId := 2, ankiClients := [0, 1], lxClients := example_clients\<rparr>"

text \<open>The ids of the loaded catalog; none while \<open>demozonesId\<close> is undefined.\<close>

definition catalog_ids :: "relay \<Rightarrow> string list" where
  "catalog_ids st = (case demozonesId st of None \<Rightarrow> [] | Some ids \<Rightarrow> ids)"

text \<open>A relay whose catalog has one item, with the empty string as its id.\<close>

definition empty_id_relay :: relay where
  "empty_id_relay =
     initial\<lparr>demozones := Some [\<lparr>zone_id = [], zone_name = ''Nowhere'', proxyport = 7003\<rparr>],
             demozonesId := Some [[]]\<rparr>"

subsection \<open>Validation\<close>

lemma indexOf_from_member: "0 \<le> i \<Longrightarrow> (indexOf_from xs x i \<noteq> - 1) = (x \<in> set xs)"
proof (induction xs x i rule: indexOf_from.induct)
  case (1 x i)
  then show ?case by simp
next
  case (2 y ys x i)
  then show ?case by auto
qed

lemma indexOf_member: "(indexOf xs x \<noteq> - 1) = (x \<in> set xs)"
  unfolding indexOf_def by (rule indexOf_from_member) simp

lemma isValid_Str:
  "isValid toUpperCase (Some ids) (Str s) = Inr (s \<noteq> [] \<and> toUpperCase s \<in> set ids)"
  by (cases ids)
     (auto simp: isValid_def falsy_param_def falsy_array_def arr_length_def
        param_toUpperCase_def arr_indexOf_def indexOf_member)







subsection \<open>Rejected connections\<close>








subsection \<open>Accepted connections\<close>

lemma on_connection_accepts:
  "isValid toUpperCase (demozonesId st) (Str s) = Inr True \<Longrightarrow>
   on_connection toUpperCase (Str s) sock now ts st =
     Inr (st\<lparr>cnxId := cnxId st + 1,
             lxClients := lxClients st @
               [\<lparr>cnx_id = cnxId st + 1, cnx_demozone = toUpperCase s, timestampmilis = now,
                 timestamp = ts, socket = sock\<rparr>]\<rparr>,
          [Registered (toUpperCase s) (cnxId st + 1)])"
  by (simp add: on_connection_def param_toUpperCase_def Let_def)

text \<open>
  The empty string is a casing variant of the empty catalog id, and the guard
  \<open>!demozone\<close> rejects it: a catalog id is not accepted in every casing.
\<close>

theorem empty_zone_counterexample:
  "ascii_toUpperCase [] \<in> set (catalog_ids empty_id_relay)
   \<and> (on_connection ascii_toUpperCase (Str []) 7 1000 ''now'' empty_id_relay
        :: (js_error \<times> relay) + (relay \<times> string effect list))
      = Inr (empty_id_relay, [Disconnect 7])"
  by (simp add: catalog_ids_def empty_id_relay_def initial_def ascii_toUpperCase_def
      on_connection_def isValid_def falsy_param_def)

text \<open>
  C5, amended. For every id \<open>Z\<close> of the loaded catalog and every non-empty string
  \<open>s\<close> that \<open>toUpperCase\<close> takes to \<open>Z\<close>, validation succeeds and the connection is
  registered: \<open>cnxId\<close> is incremented and a \<open>cnx\<close> with the new id and the demozone
  \<open>Z\<close>, the uppercase form, is appended to \<open>lxClients\<close>.
\<close>

theorem known_zone_any_casing:
  assumes "Z \<in> set (catalog_ids st)" and "toUpperCase s = Z" and "s \<noteq> []"
  shows "isValid toUpperCase (demozonesId st) (Str s) = Inr True
         \<and> (on_connection toUpperCase (Str s) sock now ts st
              :: (js_error \<times> relay) + (relay \<times> 'm effect list)) =
             Inr (st\<lparr>cnxId := cnxId st + 1,
                     lxClients := lxClients st @
                       [\<lparr>cnx_id = cnxId st + 1, cnx_demozone = Z, timestampmilis = now,
                         timestamp = ts, socket = sock\<rparr>]\<rparr>,
                  [Registered Z (cnxId st + 1)])"
proof -
  from assms(1) obtain ids where ids: "demozonesId st = Some ids" "Z \<in> set ids"
    by (cases "demozonesId st") (auto simp: catalog_ids_def)
  with assms have v: "isValid toUpperCase (demozonesId st) (Str s) = Inr True"
    by (simp add: isValid_Str)
  from on_connection_accepts [OF v] assms(2) v show ?thesis
    by simp
qed

theorem known_zone_any_casing_witness:
  "(on_connection ascii_toUpperCase (Str ''bArCeLoNa'') 7 1000 ''now'' example_relay
      :: (js_error \<times> relay) + (relay \<times> string effect list)) =
     Inr (example_relay\<lparr>cnxId := 1,
             lxClients :=
               [\<lparr>cnx_id = 1, cnx_demozone = ''BARCELONA'', timestampmilis = 1000,
                 timestamp = ''now'', socket = 7\<rparr>]\<rparr>,
          [Registered ''BARCELONA'' 1])"
proof -
  have a: "''BARCELONA'' \<in> set (catalog_ids example_relay)"
    by (simp add: catalog_ids_def example_relay_def)
  have b: "ascii_toUpperCase ''bArCeLoNa'' = ''BARCELONA''"
    by code_simp
  have c: "''bArCeLoNa'' \<noteq> []" by simp
  show ?thesis
    using known_zone_any_casing [where 'm = string and toUpperCase = ascii_toUpperCase
        and s = "''bArCeLoNa''" and sock = 7 and now = 1000 and ts = "''now''", OF a b c]
    by (simp add: example_relay_def)
qed

subsection \<open>Removal from the registry\<close>

text \<open>
  C8. Removing a client id twice is the same as removing it once, and removing an id
  that no client of \<open>lxClients\<close> has leaves the state as it is; the handler has no
  throwing branch. The \<open>error\<close> handler changes nothing, so an error before or after
  the disconnect gives the state of the disconnect alone.
\<close>

theorem remove_idempotent:
  "on_socket_disconnect i (on_socket_disconnect i st) = on_socket_disconnect i st
   \<and> (i \<notin> cnx_id ` set (lxClients st) \<longrightarrow> on_socket_disconnect i st = st)
   \<and> on_socket_error i (on_socket_disconnect i st) = on_socket_disconnect i st
   \<and> on_socket_disconnect i (on_socket_error i st) = on_socket_disconnect i st"
proof -
  have "i \<notin> cnx_id ` set (lxClients st) \<Longrightarrow>
        filter (\<lambda>c. cnx_id c \<noteq> i) (lxClients st) = lxClients st"
    by (rule filter_True) auto
  then show ?thesis
    by (simp add: on_socket_disconnect_def on_socket_error_def lodash_remove_def)
qed

theorem remove_idempotent_witness:
  "3 \<notin> cnx_id ` set (lxClients example_busy)
   \<and> on_socket_disconnect 3 example_busy = example_busy
   \<and> on_socket_disconnect 1 (on_socket_disconnect 1 example_busy)
       = on_socket_disconnect 1 example_busy"
proof -
  have "3 \<notin> cnx_id ` set (lxClients example_busy)"
    by (simp add: example_busy_def example_clients_def)
  then show ?thesis
    using remove_idempotent [of 3 example_busy] remove_idempotent [of 1 example_busy]
    by simp
qed

subsection \<open>Upstream ports\<close>

text \<open>
  A negative \<open>proxyport\<close> gives a negative remainder: \<open>-1 % 100\<close> is \<open>-1\<close>, the port
  is 9999, below the range, and not \<open>(-1 mod 100) + 10000 = 10099\<close>.
\<close>

theorem negative_proxyport_counterexample:
  "port (new_upstream \<lparr>zone_id = ''BARCELONA'', zone_name = ''Barcelona'', proxyport = - 1\<rparr>)
     = 9999
   \<and> (- 1 :: int) mod 100 + 10000 = 10099"
  by (simp add: new_upstream_def js_rem_def)

lemma js_rem_nonneg: "0 \<le> a \<Longrightarrow> js_rem a 100 = a mod 100"
  by (cases "a = 0") (simp_all add: js_rem_def)

lemma js_rem_bounds: "- 99 \<le> js_rem a 100 \<and> js_rem a 100 \<le> 99"
proof -
  have "0 \<le> \<bar>a\<bar> mod 100" "\<bar>a\<bar> mod 100 < 100" by simp_all
  moreover have "sgn a = - 1 \<or> sgn a = 0 \<or> sgn a = 1"
    by (cases "a < 0"; cases "a = 0") simp_all
  ultimately show ?thesis
    unfolding js_rem_def by auto
qed

lemma upstream_port_any: "9901 \<le> port (new_upstream z) \<and> port (new_upstream z) \<le> 10099"
  using js_rem_bounds [of "proxyport z"] by (simp add: new_upstream_def)

text \<open>
  C10, amended. For every catalog item with a non-negative \<open>proxyport\<close>, the port of
  its upstream connection is \<open>(proxyport mod 100) + 10000\<close> and lies between 10000 and
  10099, however large \<open>proxyport\<close> is.
\<close>

theorem upstream_port_range:
  assumes "demozones st = Some zs" and "i < length zs" and "0 \<le> proxyport (zs ! i)"
  shows "port (pool (open_upstreams st) ! i) = proxyport (zs ! i) mod 100 + 10000
         \<and> 10000 \<le> port (pool (open_upstreams st) ! i)
         \<and> port (pool (open_upstreams st) ! i) \<le> 10099"
proof -
  have "port (pool (open_upstreams st) ! i) = js_rem (proxyport (zs ! i)) 100 + 10000"
    using assms(1,2) by (simp add: open_upstreams_def new_upstream_def)
  also have "\<dots> = proxyport (zs ! i) mod 100 + 10000"
    using assms(3) by (simp add: js_rem_nonneg)
  finally have eq: "port (pool (open_upstreams st) ! i) = proxyport (zs ! i) mod 100 + 10000" .
  have "0 \<le> proxyport (zs ! i) mod 100" "proxyport (zs ! i) mod 100 < 100"
    by simp_all
  with eq show ?thesis by linarith
qed

theorem upstream_port_range_witness:
  "port (pool (open_upstreams example_relay) ! 0) = 7001 mod 100 + 10000
   \<and> 10000 \<le> port (pool (open_upstreams example_relay) ! 0)
   \<and> port (pool (open_upstreams example_relay) ! 0) \<le> 10099"
proof -
  have a: "demozones example_relay = Some example_catalog"
    by (simp add: example_relay_def)
  have b: "0 < length example_catalog"
    by (simp add: example_catalog_def)
  have c: "0 \<le> proxyport (example_catalog ! 0)"
    by (simp add: example_catalog_def)
  show ?thesis
    using upstream_port_range [OF a b c] by (simp add: example_catalog_def)
qed

subsection \<open>Upstream events\<close>

lemma on_offtrack_some:
  assumes "\<exists>c\<in>set (lxClients st). cnx_demozone c = d_demozone (pool st ! i)"
  shows "on_offtrack i msg ts st =
           (st\<lparr>pool := (pool st)[i := (pool st ! i)\<lparr>events := events (pool st ! i) + 1,
                                                   lastEvent := Some ts\<rparr>]\<rparr>,
            map (\<lambda>client. Emit (socket client) namespace msg)
              (filter (\<lambda>c. cnx_demozone c = d_demozone (pool st ! i)) (lxClients st)))"
proof -
  from assms have "filter (\<lambda>c. cnx_demozone c = d_demozone (pool st ! i)) (lxClients st) \<noteq> []"
    by (simp add: filter_empty_conv)
  then show ?thesis
    by (simp add: on_offtrack_def lodash_filter_def Let_def)
qed

lemma on_offtrack_none:
  assumes "\<forall>c\<in>set (lxClients st). cnx_demozone c \<noteq> d_demozone (pool st ! i)"
  shows "on_offtrack i msg ts st = (st, [])"
proof -
  from assms have "filter (\<lambda>c. cnx_demozone c = d_demozone (pool st ! i)) (lxClients st) = []"
    by (simp add: filter_empty_conv)
  then show ?thesis
    by (simp add: on_offtrack_def lodash_filter_def Let_def)
qed

text \<open>
  With no client registered for BARCELONA, an \<open>offtrack\<close> message of the BARCELONA
  upstream leaves \<open>events\<close> at 0 and \<open>lastEvent\<close> at null: the event is not counted.
\<close>

theorem offtrack_no_subscriber_counterexample:
  "lxClients example_relay = []
   \<and> d_demozone (pool example_relay ! 0) = ''BARCELONA''
   \<and> events (pool example_relay ! 0) = 0
   \<and> events (pool (fst (on_offtrack 0 ''lap 3'' ''01/02/2017 16:45:17:421'' example_relay)) ! 0)
       = 0
   \<and> lastEvent (pool (fst (on_offtrack 0 ''lap 3'' ''01/02/2017 16:45:17:421'' example_relay)) ! 0)
       = None"
  by (simp add: example_relay_def on_offtrack_def lodash_filter_def)

text \<open>
  C1, amended. An \<open>offtrack\<close> message of the \<open>i\<close>-th upstream increments \<open>events\<close> of
  its object \<open>d\<close> by one and sets \<open>lastEvent\<close> to the time of the delivery when at least
  one client is registered for the demozone of \<open>d\<close>; when none is, the state is unchanged
  (the event is not counted, the timestamp is not set) and nothing is emitted.
\<close>

theorem offtrack_counts_when_forwarded:
  assumes "i < length (pool st)"
  shows "((\<exists>c\<in>set (lxClients st). cnx_demozone c = d_demozone (pool st ! i)) \<longrightarrow>
            events (pool (fst (on_offtrack i msg ts st)) ! i) = events (pool st ! i) + 1
            \<and> lastEvent (pool (fst (on_offtrack i msg ts st)) ! i) = Some ts)
         \<and> ((\<forall>c\<in>set (lxClients st). cnx_demozone c \<noteq> d_demozone (pool st ! i)) \<longrightarrow>
              on_offtrack i msg ts st = (st, []))"
  using assms by (auto simp: on_offtrack_some on_offtrack_none)

theorem offtrack_counts_when_forwarded_witness:
  "events (pool (fst (on_offtrack 0 ''lap 3'' ''01/02/2017 16:45:17:421'' example_busy)) ! 0) = 1
   \<and> lastEvent (pool (fst (on_offtrack 0 ''lap 3'' ''01/02/2017 16:45:17:421'' example_busy)) ! 0)
       = Some ''01/02/2017 16:45:17:421''
   \<and> on_offtrack 0 ''lap 3'' ''01/02/2017 16:45:17:421'' example_relay = (example_relay, [])"
proof -
  have a: "0 < length (pool example_busy)" "0 < length (pool example_relay)"
    by (simp_all add: example_busy_def example_relay_def)
  have b: "\<exists>c\<in>set (lxClients example_busy). cnx_demozone c = d_demozone (pool example_busy ! 0)"
    by (simp add: example_busy_def example_relay_def example_clients_def)
  have c: "\<forall>c\<in>set (lxClients example_relay).
             cnx_demozone c \<noteq> d_demozone (pool example_relay ! 0)"
    by (simp add: example_relay_def)
  have d: "events (pool example_busy ! 0) = 0"
    by (simp add: example_busy_def example_relay_def)
  show ?thesis
    using offtrack_counts_when_forwarded [OF a(1), of "''lap 3''" "''01/02/2017 16:45:17:421''"]
      offtrack_counts_when_forwarded [OF a(2), of "''lap 3''" "''01/02/2017 16:45:17:421''"]
      b c d
    by simp
qed

text \<open>
  C2. An \<open>offtrack\<close> message of the upstream of demozone \<open>Z\<close> is emitted, as received
  and on the same namespace, on the socket of every client registered for \<open>Z\<close>; every
  emit is such a one, and there is one per registered client of \<open>Z\<close>. Sockets being
  distinct handles, nothing at all is emitted on the socket of a client of another
  demozone.
\<close>

theorem offtrack_fan_out:
  "(\<forall>c\<in>set (lxClients st). cnx_demozone c = d_demozone (pool st ! i) \<longrightarrow>
       Emit (socket c) namespace msg \<in> set (snd (on_offtrack i msg ts st)))
   \<and> (\<forall>e\<in>set (snd (on_offtrack i msg ts st)).
         \<exists>c\<in>set (lxClients st). cnx_demozone c = d_demozone (pool st ! i)
            \<and> e = Emit (socket c) namespace msg)
   \<and> (distinct (map socket (lxClients st)) \<longrightarrow>
        (\<forall>c\<in>set (lxClients st). cnx_demozone c \<noteq> d_demozone (pool st ! i) \<longrightarrow>
           (\<forall>n m. Emit (socket c) n m \<notin> set (snd (on_offtrack i msg ts st)))))
   \<and> length (snd (on_offtrack i msg ts st))
       = length (filter (\<lambda>c. cnx_demozone c = d_demozone (pool st ! i)) (lxClients st))"
proof (cases "\<exists>c\<in>set (lxClients st). cnx_demozone c = d_demozone (pool st ! i)")
  case True
  have out: "snd (on_offtrack i msg ts st) =
      map (\<lambda>client. Emit (socket client) namespace msg)
        (filter (\<lambda>c. cnx_demozone c = d_demozone (pool st ! i)) (lxClients st))"
    by (simp add: on_offtrack_some [OF True])
  have sock: "distinct (map socket (lxClients st)) \<Longrightarrow> c \<in> set (lxClients st) \<Longrightarrow>
      c' \<in> set (lxClients st) \<Longrightarrow> socket c = socket c' \<Longrightarrow> c = c'" for c c'
    by (meson distinct_map inj_onD)
  show ?thesis
    unfolding out using sock by auto
next
  case False
  then have "on_offtrack i msg ts st = (st, [])"
    by (simp add: on_offtrack_none)
  with False show ?thesis
    by (auto simp: filter_empty_conv)
qed

theorem offtrack_fan_out_witness:
  "Emit 11 namespace ''lap 3''
     \<in> set (snd (on_offtrack 0 ''lap 3'' ''01/02/2017 16:45:17:421'' example_busy))
   \<and> (\<forall>n m. Emit 12 n m
         \<notin> set (snd (on_offtrack 0 ''lap 3'' ''01/02/2017 16:45:17:421'' example_busy)))
   \<and> length (snd (on_offtrack 0 ''lap 3'' ''01/02/2017 16:45:17:421'' example_busy)) = 1"
proof -
  have a: "lxClients example_busy = example_clients"
    "d_demozone (pool example_busy ! 0) = ''BARCELONA''"
    by (simp_all add: example_busy_def example_relay_def)
  have b: "distinct (map socket (lxClients example_busy))"
    by (simp add: a example_clients_def)
  show ?thesis
    using offtrack_fan_out [of example_busy 0 "''lap 3''" "''01/02/2017 16:45:17:421''"] b
    by (simp add: a example_clients_def)
qed

subsection \<open>Upstream disconnects\<close>

text \<open>
  C4. The entry of an upstream connection is its object \<open>d\<close>, and the connection counts
  as connected while \<open>ankiClients\<close> refers to it. The \<open>disconnect\<close> handler of the
  \<open>i\<close>-th upstream leaves every object \<open>d\<close> as it is, \<open>events\<close> and \<open>lastEvent\<close>
  included, and only drops the reference from \<open>ankiClients\<close>; the clients, \<open>cnxId\<close> and
  the catalog are unchanged. When the socket connects again the same object is listed
  again, and \<open>/info\<close> shows it with the counters it had.
\<close>

theorem upstream_disconnect_keeps_entry:
  "pool (on_up_disconnect i st) = pool st
   \<and> i \<notin> set (ankiClients (on_up_disconnect i st))
   \<and> lxClients (on_up_disconnect i st) = lxClients st
   \<and> cnxId (on_up_disconnect i st) = cnxId st
   \<and> demozonesId (on_up_disconnect i st) = demozonesId st
   \<and> pool (on_up_connect i (on_up_disconnect i st)) = pool st
   \<and> i \<in> set (ankiClients (on_up_connect i (on_up_disconnect i st)))
   \<and> (d_name (pool st ! i), events (pool st ! i), lastEvent (pool st ! i))
       \<in> set (info (on_up_connect i (on_up_disconnect i st)))"
  by (simp add: on_up_disconnect_def on_up_connect_def lodash_remove_def info_def)

text \<open>Where the catalog ids are distinct, the other upstream connections stay as listed.\<close>

lemma upstream_disconnect_others:
  assumes "distinct (map d_demozone (pool st))" and "i < length (pool st)"
    and "j < length (pool st)" and "j \<noteq> i"
  shows "(j \<in> set (ankiClients (on_up_disconnect i st))) = (j \<in> set (ankiClients st))"
proof -
  from assms have "d_demozone (pool st ! j) \<noteq> d_demozone (pool st ! i)"
    using nth_eq_iff_index_eq [of "map d_demozone (pool st)" j i] by simp
  then show ?thesis
    by (simp add: on_up_disconnect_def lodash_remove_def)
qed

subsection \<open>Client ids over a run\<close>


lemma registered_ids_append:
  "registered_ids (xs @ ys) = registered_ids xs @ registered_ids ys"
  by (induction xs rule: registered_ids.induct) simp_all


text \<open>Every id found in \<open>lxClients\<close> after a run was there before or was given out in it.\<close>

lemma step_registry:
  "cnx_id ` set (lxClients (fst (step toUpperCase ev st)))
     \<subseteq> cnx_id ` set (lxClients st) \<union> set (registered_ids (snd (step toUpperCase ev st)))"
proof (cases ev)
  case (Connection demozone sock now ts)
  then show ?thesis
    by (auto simp: step_def on_connection_def Let_def split: sum.splits)
next
  case (Offtrack i msg ts)
  then show ?thesis
    by (simp add: step_def on_offtrack_def Let_def)
qed (auto simp: step_def on_socket_disconnect_def on_socket_error_def on_up_connect_def
      on_up_disconnect_def lodash_remove_def)

lemma run_registry:
  "cnx_id ` set (lxClients (fst (run toUpperCase evs st)))
     \<subseteq> cnx_id ` set (lxClients st) \<union> set (registered_ids (snd (run toUpperCase evs st)))"
proof (induction evs arbitrary: st)
  case Nil
  then show ?case by simp
next
  case (Cons ev evs)
  obtain st1 out1 where s: "step toUpperCase ev st = (st1, out1)"
    by (cases "step toUpperCase ev st")
  obtain st2 out2 where r: "run toUpperCase evs st1 = (st2, out2)"
    by (cases "run toUpperCase evs st1")
  from Cons.IH [of st1] r
  have "cnx_id ` set (lxClients st2)
          \<subseteq> cnx_id ` set (lxClients st1) \<union> set (registered_ids out2)"
    by simp
  moreover from step_registry [of toUpperCase ev st] s
  have "cnx_id ` set (lxClients st1)
          \<subseteq> cnx_id ` set (lxClients st) \<union> set (registered_ids out1)"
    by simp
  ultimately show ?case
    using s r by (auto simp: registered_ids_append)
qed


subsection \<open>Startup\<close>

text \<open>What holds of the claim: an empty or missing list of items exits with status 2.\<close>

lemma startup_empty_catalog:
  "startup None (Body (JObject None)) = Exited 2
   \<and> startup None (Body (JObject (Some []))) = Exited 2"
  by (simp add: startup_def catalog_fetched_def)

text \<open>A failed fetch with a parsed body and a non-empty error message exits with status 2.\<close>

lemma startup_error_with_body:
  "m \<noteq> [] \<Longrightarrow> startup (Some m) (Body b) = Exited 2"
  by (simp add: startup_def catalog_fetched_def)

text \<open>A failed fetch with a non-empty error message never creates the relay.\<close>

lemma startup_error_never_running:
  "m \<noteq> [] \<Longrightarrow> startup (Some m) res \<noteq> Running st"
  by (cases res) (simp_all add: startup_def catalog_fetched_def)

text \<open>A non-empty list starts the relay on that catalog.\<close>

lemma startup_loaded:
  "zs \<noteq> [] \<Longrightarrow> startup None (Body (JObject (Some zs))) =
     Running \<lparr>demozones = Some zs, demozonesId = Some (map zone_id zs), cnxId = 0,
              ankiClients = [], lxClients = [], pool = map new_upstream zs\<rparr>"
  by (simp add: startup_def catalog_fetched_def open_upstreams_def initial_def)

text \<open>No callback of the running relay changes the catalog.\<close>

lemma step_catalog:
  "demozonesId (fst (step toUpperCase ev st)) = demozonesId st
   \<and> demozones (fst (step toUpperCase ev st)) = demozones st"
  by (cases ev)
     (auto simp: step_def on_connection_def Let_def on_socket_disconnect_def
        on_socket_error_def on_up_connect_def on_up_disconnect_def on_offtrack_def
        split: sum.splits)

lemma run_catalog:
  "demozonesId (fst (run toUpperCase evs st)) = demozonesId st
   \<and> demozones (fst (run toUpperCase evs st)) = demozones st"
proof (induction evs arbitrary: st)
  case Nil
  then show ?case by simp
next
  case (Cons ev evs)
  then show ?case
    using step_catalog [of toUpperCase ev st] by (auto split: prod.splits) (metis fst_conv)+
qed

text \<open>
  C7. A failed fetch does not always end the process before the relay is created. The
  callback hands \<open>err.message\<close>, not \<open>err\<close>, to \<open>next\<close>: for an error whose message is the
  empty string the series takes \<open>next('''')\<close> for success and goes on, and the relay
  is created and runs with no catalog (\<open>demozonesId\<close> undefined, no upstream). The
  callback also parses \<open>res.body\<close> before it looks at \<open>err\<close>: for a failed fetch with no
  response, or with a body that is not JSON, it throws; there the exception is logged,
  \<open>process.exit(2)\<close> is not reached, and the process ends by itself with status 0 and
  no relay.
\<close>

theorem failed_fetch_outcomes:
  "startup (Some []) (Body (JObject None)) = Running initial
   \<and> demozonesId initial = None
   \<and> startup (Some ''connect ECONNREFUSED'') No_response = Ended_after TypeError
   \<and> startup (Some ''Service Unavailable'') Bad_body = Ended_after SyntaxError"
  by (simp add: startup_def catalog_fetched_def open_upstreams_def initial_def)

end
